theory Spec2Isabelle
  imports Main "HOL-Library.Word"
begin

section \<open>Byte strings and the string functions of Go's standard library\<close>

text \<open>
  A Go string is a sequence of bytes, here a \<open>string\<close> (a list of 8-bit characters).
  The functions of this section are the ones \<^verbatim>\<open>gittoolbox.go\<close> calls from the packages
  \<^verbatim>\<open>strings\<close>, \<^verbatim>\<open>unicode\<close> and \<^verbatim>\<open>fmt\<close>; they follow the documented behaviour of
  the Go library on byte strings holding UTF-8.
\<close>

text \<open>
  \<^verbatim>\<open>strings.ContainsAny(s, chars)\<close> for a set \<open>chars\<close> of ASCII characters: some byte of
  \<open>s\<close> is one of them (an ASCII byte never occurs inside a multi-byte UTF-8 sequence).
\<close>

definition ContainsAny :: "string \<Rightarrow> string \<Rightarrow> bool" where
  "ContainsAny s chars = list_ex (\<lambda>c. List.member chars c) s"

text \<open>
  \<^verbatim>\<open>strings.Split(s, sep)\<close> for a separator of one byte (the code splits at the newline
  only): all pieces between separators, an empty string giving the one piece \<open>''''\<close>.
\<close>

fun Split :: "string \<Rightarrow> char \<Rightarrow> string list" where
  "Split [] sep = [[]]"
| "Split (c # cs) sep =
     (if c = sep then [] # Split cs sep
      else (case Split cs sep of [] \<Rightarrow> [[c]] | l # ls \<Rightarrow> (c # l) # ls))"

text \<open>
  \<^verbatim>\<open>unicode.IsSpace\<close> holds of the code points U+0009..U+000D, U+0020, U+0085, U+00A0,
  U+1680, U+2000..U+200A, U+2028, U+2029, U+202F, U+205F and U+3000. In UTF-8 these are
  one, two or three bytes long; the three predicates recognise their encodings.
\<close>

definition space1 :: "char \<Rightarrow> bool" where
  "space1 a = (a = CHR 0x09 \<or> a = CHR 0x0A \<or> a = CHR 0x0B \<or> a = CHR 0x0C \<or> a = CHR 0x0D
     \<or> a = CHR 0x20)"

definition space2 :: "char \<Rightarrow> char \<Rightarrow> bool" where
  "space2 a b = (a = CHR 0xC2 \<and> (b = CHR 0x85 \<or> b = CHR 0xA0))"

definition space3 :: "char \<Rightarrow> char \<Rightarrow> char \<Rightarrow> bool" where
  "space3 a b c =
     ((a = CHR 0xE1 \<and> b = CHR 0x9A \<and> c = CHR 0x80)
    \<or> (a = CHR 0xE2 \<and> b = CHR 0x80 \<and> (of_char c :: nat) \<in> set [0x80 ..< 0x8B])
    \<or> (a = CHR 0xE2 \<and> b = CHR 0x80 \<and> (c = CHR 0xA8 \<or> c = CHR 0xA9 \<or> c = CHR 0xAF))
    \<or> (a = CHR 0xE2 \<and> b = CHR 0x81 \<and> c = CHR 0x9F)
    \<or> (a = CHR 0xE3 \<and> b = CHR 0x80 \<and> c = CHR 0x80))"

text \<open>Dropping the white space at the front of a string, rune by rune.\<close>

fun trimLeft :: "string \<Rightarrow> string" where
  "trimLeft [] = []"
| "trimLeft [a] = (if space1 a then [] else [a])"
| "trimLeft [a, b] =
     (if space1 a then trimLeft [b] else if space2 a b then [] else [a, b])"
| "trimLeft (a # b # c # r) =
     (if space1 a then trimLeft (b # c # r)
      else if space2 a b then trimLeft (c # r)
      else if space3 a b c then trimLeft r
      else a # b # c # r)"

text \<open>The same at the end of a string; the argument is the string reversed.\<close>

fun trimLeftRev :: "string \<Rightarrow> string" where
  "trimLeftRev [] = []"
| "trimLeftRev [a] = (if space1 a then [] else [a])"
| "trimLeftRev [b, a] =
     (if space1 b then trimLeftRev [a] else if space2 a b then [] else [b, a])"
| "trimLeftRev (c # b # a # r) =
     (if space1 c then trimLeftRev (b # a # r)
      else if space2 b c then trimLeftRev (a # r)
      else if space3 a b c then trimLeftRev r
      else c # b # a # r)"

text \<open>
  \<^verbatim>\<open>strings.TrimSpace(s)\<close>: \<open>s\<close> without its leading and trailing white space, the
  front first, as \<^verbatim>\<open>TrimFunc\<close> does.
\<close>

definition TrimSpace :: "string \<Rightarrow> string" where
  "TrimSpace s = rev (trimLeftRev (rev (trimLeft s)))"

text \<open>
  \<^verbatim>\<open>strings.Fields(s)\<close>: the maximal runs of bytes between white space. \<open>cur\<close> is the
  field being read, empty when none is open.
\<close>

definition emit :: "string \<Rightarrow> string list \<Rightarrow> string list" where
  "emit cur fs = (if cur = [] then fs else cur # fs)"

fun fieldsFrom :: "string \<Rightarrow> string \<Rightarrow> string list" where
  "fieldsFrom cur [] = emit cur []"
| "fieldsFrom cur [a] = (if space1 a then emit cur [] else [cur @ [a]])"
| "fieldsFrom cur [a, b] =
     (if space1 a then emit cur (fieldsFrom [] [b])
      else if space2 a b then emit cur []
      else fieldsFrom (cur @ [a]) [b])"
| "fieldsFrom cur (a # b # c # r) =
     (if space1 a then emit cur (fieldsFrom [] (b # c # r))
      else if space2 a b then emit cur (fieldsFrom [] (c # r))
      else if space3 a b c then emit cur (fieldsFrom [] r)
      else fieldsFrom (cur @ [a]) (b # c # r))"

definition Fields :: "string \<Rightarrow> string list" where
  "Fields s = fieldsFrom [] s"

text \<open>
  The conversion \<^verbatim>\<open>rune(i)\<close> of a Go \<^verbatim>\<open>int\<close> to \<^verbatim>\<open>int32\<close> keeps the low 32 bits, read
  as two's complement.
\<close>

definition rune :: "int \<Rightarrow> int" where
  "rune i = sint (word_of_int i :: 32 word)"

text \<open>
  The conversion \<^verbatim>\<open>string(r)\<close> of a rune: the UTF-8 encoding of the code point \<open>r\<close>, and
  of U+FFFD when \<open>r\<close> is not a valid code point (negative, a surrogate, beyond U+10FFFF).
\<close>

definition byte :: "int \<Rightarrow> char" where
  "byte i = char_of i"

definition runeString :: "int \<Rightarrow> string" where
  "runeString r =
     (if r < 0 \<or> 0x10FFFF < r \<or> (0xD800 \<le> r \<and> r \<le> 0xDFFF) then [CHR 0xEF, CHR 0xBF, CHR 0xBD]
      else if r < 0x80 then [byte r]
      else if r < 0x800 then [byte (0xC0 + r div 0x40), byte (0x80 + r mod 0x40)]
      else if r < 0x10000 then
        [byte (0xE0 + r div 0x1000), byte (0x80 + r div 0x40 mod 0x40), byte (0x80 + r mod 0x40)]
      else
        [byte (0xF0 + r div 0x40000), byte (0x80 + r div 0x1000 mod 0x40),
         byte (0x80 + r div 0x40 mod 0x40), byte (0x80 + r mod 0x40)])"

section \<open>The host: file system, path functions and the git subprocess\<close>

text \<open>
  The file system, the functions of \<^verbatim>\<open>path/filepath\<close> and the git program are outside
  the repository. A \<open>host\<close> gives what each of them answers: \<open>Clean\<close>, \<open>Join\<close> and
  \<open>Dir\<close> are \<^verbatim>\<open>filepath.Clean\<close>, \<^verbatim>\<open>filepath.Join\<close> and \<^verbatim>\<open>filepath.Dir\<close>; \<open>Glob\<close> is
  \<^verbatim>\<open>filepath.Glob\<close>; \<open>Stat\<close> is \<^verbatim>\<open>os.Stat\<close>, answering whether the path is a directory;
  \<open>ReadDir\<close> is \<^verbatim>\<open>os.ReadDir\<close>; \<open>Run\<close> runs \<^verbatim>\<open>git\<close> with the given \<^verbatim>\<open>cmd.Dir\<close> and
  arguments and answers the combined standard output and error, with the error of
  \<^verbatim>\<open>cmd.Run\<close> if any. An error of the host is kept as its message.

  The host is a snapshot: during one call the file system answers the same question in
  the same way. The commands of one call all differ in their arguments, so git answering
  by working directory and arguments leaves every sequence of answers possible, also
  those that depend on an earlier command (the fetch).
\<close>

type_synonym oserr = string

record DirEntry =
  Name :: string
  IsDir :: bool

record host =
  Clean :: "string \<Rightarrow> string"
  Join :: "string \<Rightarrow> string \<Rightarrow> string"
  Dir :: "string \<Rightarrow> string"
  Glob :: "string \<Rightarrow> oserr + string list"
  Stat :: "string \<Rightarrow> oserr + bool"
  ReadDir :: "string \<Rightarrow> oserr + DirEntry list"
  Run :: "string \<Rightarrow> string list \<Rightarrow> string \<times> oserr option"

section \<open>The data of gittoolbox\<close>

record PathTarget =
  Path :: string
  IncludeSubdirs :: bool

text \<open>
  The errors the two operations return, named as the specification names them. The code
  builds them with \<^verbatim>\<open>fmt.Errorf\<close>; each constructor keeps the arguments of the format:
  \<^item> \<open>InvalidGlobError p e\<close>: \<^verbatim>\<open>"invalid glob %s: %w"\<close>;
  \<^item> \<open>NoMatchError p\<close>: \<^verbatim>\<open>"glob %s: no matches"\<close>;
  \<^item> \<open>PathNotFoundError p e\<close>: \<^verbatim>\<open>"stat %s: %w"\<close>;
  \<^item> \<open>DirectoryReadError p e\<close>: \<^verbatim>\<open>"read dir %s: %w"\<close>;
  \<^item> \<open>EmptyResolutionError\<close>: \<^verbatim>\<open>"no files to inspect"\<close>;
  \<^item> \<open>BackendQueryError q e\<close>: \<^verbatim>\<open>"git log hash: %w"\<close>, \<^verbatim>\<open>"git log date: %w"\<close> and
    \<^verbatim>\<open>"git log count: %w"\<close>, \<open>q\<close> being the text before the colon;
  \<^item> \<open>CommandError e\<close>: the error of a git command, returned as it is;
  \<^item> \<open>UnexpectedOutputError\<close>: \<^verbatim>\<open>"unexpected output from git rev-list"\<close>;
  \<^item> \<open>BranchBehindError b\<close>: \<^verbatim>\<open>"your branch is behind origin/%s"\<close>;
  \<^item> \<open>BranchAheadError b\<close>: \<^verbatim>\<open>"your branch is ahead of origin/%s"\<close>;
  \<^item> \<open>UncommittedChangesError\<close>: \<^verbatim>\<open>"you have uncommitted changes"\<close>.
\<close>

datatype error =
    InvalidGlobError string oserr
  | NoMatchError string
  | PathNotFoundError string oserr
  | DirectoryReadError string oserr
  | EmptyResolutionError
  | BackendQueryError string oserr
  | CommandError oserr
  | UnexpectedOutputError
  | BranchBehindError string
  | BranchAheadError string
  | UncommittedChangesError

section \<open>Running git\<close>

text \<open>
  Every run of git is recorded: a \<open>call\<close> is the working directory and the arguments of
  one run, and the functions below return the calls they made, in order, beside their
  result.
\<close>

type_synonym call = "string \<times> string list"

text \<open>\<^verbatim>\<open>gitOutputIn(dir, args...)\<close>: the trimmed output and the error of the run.\<close>

definition gitOutputIn ::
  "host \<Rightarrow> string \<Rightarrow> string list \<Rightarrow> call list \<Rightarrow> (string \<times> oserr option) \<times> call list" where
  "gitOutputIn h dir args calls =
     (let cmdDir = (if dir \<noteq> '''' then dir else '''');
          (out, err) = Run h cmdDir args
      in ((TrimSpace out, err), calls @ [(cmdDir, args)]))"

definition gitOutput ::
  "host \<Rightarrow> string list \<Rightarrow> call list \<Rightarrow> (string \<times> oserr option) \<times> call list" where
  "gitOutput h args calls = gitOutputIn h '''' args calls"

section \<open>GetVersionMetadata: resolving the targets\<close>

text \<open>
  The loop over the entries of a directory (lines 50 to 56 and again 80 to 87): nested
  directories are skipped, every other entry is appended as \<open>Join p name\<close>.
\<close>

fun appendEntries :: "host \<Rightarrow> string \<Rightarrow> DirEntry list \<Rightarrow> string list \<Rightarrow> string list" where
  "appendEntries h p [] resolved = resolved"
| "appendEntries h p (e # es) resolved =
     (if IsDir e then appendEntries h p es resolved
      else appendEntries h p es (resolved @ [Join h p (Name e)]))"

text \<open>The loop over the matches of a glob (lines 36 to 61).\<close>

fun expandMatches :: "host \<Rightarrow> bool \<Rightarrow> string list \<Rightarrow> string list \<Rightarrow> error + string list" where
  "expandMatches h inc [] resolved = Inr resolved"
| "expandMatches h inc (m # ms) resolved =
     (case Stat h m of
        Inl err \<Rightarrow> Inl (PathNotFoundError m err)
      | Inr isDir \<Rightarrow>
          if isDir then
            (if inc then expandMatches h inc ms (resolved @ [m])
             else
               (case ReadDir h m of
                  Inl err \<Rightarrow> Inl (DirectoryReadError m err)
                | Inr entries \<Rightarrow> expandMatches h inc ms (appendEntries h m entries resolved)))
          else expandMatches h inc ms (resolved @ [m]))"

text \<open>
  The classification of a path that is not a pattern (lines 66 to 92): a file is appended
  as it is, a directory as itself or as its immediate entries.
\<close>

definition resolvePath :: "host \<Rightarrow> string \<Rightarrow> bool \<Rightarrow> string list \<Rightarrow> error + string list" where
  "resolvePath h p inc resolved =
     (case Stat h p of
        Inl err \<Rightarrow> Inl (PathNotFoundError p err)
      | Inr isDir \<Rightarrow>
          if isDir then
            (if inc then Inr (resolved @ [p])
             else
               (case ReadDir h p of
                  Inl err \<Rightarrow> Inl (DirectoryReadError p err)
                | Inr entries \<Rightarrow> Inr (appendEntries h p entries resolved)))
          else Inr (resolved @ [p]))"

text \<open>
  The body of the loop over the targets (lines 25 to 92), for one target: the cleaned
  path is a pattern when it contains one of \<^verbatim>\<open>*\<close>, \<^verbatim>\<open>?\<close> and \<^verbatim>\<open>[\<close>.
\<close>

definition resolveTarget :: "host \<Rightarrow> PathTarget \<Rightarrow> string list \<Rightarrow> error + string list" where
  "resolveTarget h t resolved =
     (let p = Clean h (Path t) in
      if ContainsAny p ''*?['' then
        (case Glob h p of
           Inl err \<Rightarrow> Inl (InvalidGlobError p err)
         | Inr matches \<Rightarrow>
             if length matches = 0 then Inl (NoMatchError p)
             else expandMatches h (IncludeSubdirs t) matches resolved)
      else resolvePath h p (IncludeSubdirs t) resolved)"

text \<open>The loop over the targets (lines 23 to 93); the first error ends it.\<close>

fun resolveTargets :: "host \<Rightarrow> PathTarget list \<Rightarrow> string list \<Rightarrow> error + string list" where
  "resolveTargets h [] resolved = Inr resolved"
| "resolveTargets h (t # ts) resolved =
     (case resolveTarget h t resolved of
        Inl e \<Rightarrow> Inl e
      | Inr resolved' \<Rightarrow> resolveTargets h ts resolved')"

section \<open>GetVersionMetadata: the queries and the suffix\<close>

text \<open>The working directory of the git commands (lines 100 to 107).\<close>

definition workDirOf :: "host \<Rightarrow> string list \<Rightarrow> string" where
  "workDirOf h resolved =
     (if length resolved > 0 then
        (case Stat h (hd resolved) of
           Inr isDir \<Rightarrow> if \<not> isDir then Dir h (hd resolved) else hd resolved
         | Inl err \<Rightarrow> hd resolved)
      else '''')"

definition baseArgsHash :: "string list" where
  "baseArgsHash = [''log'', ''-n'', ''1'', ''--pretty=format:%h'', ''--'']"

definition baseArgsDate :: "string list" where
  "baseArgsDate =
     [''log'', ''-n'', ''1'', ''--date=format:%Y-%m-%d'', ''--pretty=format:%cd'', ''--'']"

definition baseArgsCount :: "string list" where
  "baseArgsCount = [''log'', ''--date=format:%Y-%m-%d'', ''--pretty=format:%cd'', ''--'']"

text \<open>
  The counting loop (lines 133 to 138): \<open>count\<close> goes up by one for every line that,
  trimmed, equals the date. \<open>count\<close> is a Go \<^verbatim>\<open>int\<close>; it never exceeds the number of
  lines, so it does not overflow.
\<close>

fun countLines :: "string list \<Rightarrow> string \<Rightarrow> int \<Rightarrow> int" where
  "countLines [] commitDateNoSuffix count = count"
| "countLines (line # ls) commitDateNoSuffix count =
     countLines ls commitDateNoSuffix
       (if TrimSpace line = commitDateNoSuffix then count + 1 else count)"

definition sameDateCount :: "string \<Rightarrow> string \<Rightarrow> int" where
  "sameDateCount countStr commitDateNoSuffix =
     countLines (Split countStr CHR 0x0A) commitDateNoSuffix 0"

text \<open>
  The suffix (lines 141 to 145): \<^verbatim>\<open>string(rune('a' + count - 1))\<close> when \<open>count > 1\<close>. The
  sum is a Go \<^verbatim>\<open>int\<close>, of 64 or 32 bits; the conversion to \<^verbatim>\<open>rune\<close> keeps its low 32 bits,
  which are those of the exact sum.
\<close>

definition suffixOf :: "int \<Rightarrow> string" where
  "suffixOf count = (if count > 1 then runeString (rune (97 + count - 1)) else '''')"

text \<open>The date returned (lines 147 to 152); \<^verbatim>\<open>"%s-%s"\<close> joins the two with a hyphen.\<close>

definition commitDateOf :: "string \<Rightarrow> string \<Rightarrow> string" where
  "commitDateOf commitDateNoSuffix suffix =
     (if suffix = '''' \<or> suffix = ''a'' then commitDateNoSuffix
      else commitDateNoSuffix @ ''-'' @ suffix)"

text \<open>The default of lines 19 to 21: no target means the current directory.\<close>

definition defaultTargets :: "PathTarget list \<Rightarrow> PathTarget list" where
  "defaultTargets targets =
     (if length targets = 0 then [\<lparr>Path = ''.'', IncludeSubdirs = False\<rparr>] else targets)"

text \<open>
  \<^verbatim>\<open>GetVersionMetadata(targets)\<close>: the three values the Go function returns (the commit
  date, the commit hash and the error, \<open>None\<close> for \<^verbatim>\<open>nil\<close>) and the git calls it made.
\<close>

definition GetVersionMetadata ::
  "host \<Rightarrow> PathTarget list \<Rightarrow> (string \<times> string \<times> error option) \<times> call list" where
  "GetVersionMetadata h targets0 =
     (let targets = defaultTargets targets0 in
      case resolveTargets h targets [] of
        Inl e \<Rightarrow> (('''', '''', Some e), [])
      | Inr resolved \<Rightarrow>
          if length resolved = 0 then (('''', '''', Some EmptyResolutionError), [])
          else
            let workDir = workDirOf h resolved;
                ((commitHash, err1), calls1) =
                  gitOutputIn h workDir (baseArgsHash @ resolved) []
            in
            case err1 of
              Some e1 \<Rightarrow> (('''', '''', Some (BackendQueryError ''git log hash'' e1)), calls1)
            | None \<Rightarrow>
                let ((commitDateNoSuffix, err2), calls2) =
                      gitOutputIn h workDir (baseArgsDate @ resolved) calls1
                in
                case err2 of
                  Some e2 \<Rightarrow>
                    (('''', '''', Some (BackendQueryError ''git log date'' e2)), calls2)
                | None \<Rightarrow>
                    let ((countStr, err3), calls3) =
                          gitOutputIn h workDir (baseArgsCount @ resolved) calls2
                    in
                    case err3 of
                      Some e3 \<Rightarrow>
                        (('''', '''', Some (BackendQueryError ''git log count'' e3)), calls3)
                    | None \<Rightarrow>
                        let count = sameDateCount countStr commitDateNoSuffix;
                            suffix = suffixOf count;
                            commitDate = commitDateOf commitDateNoSuffix suffix
                        in ((commitDate, commitHash, None), calls3))"

section \<open>AssertBranchIsCleanAndSynced\<close>

text \<open>The arguments of the four git commands (lines 158, 164, 168 and 183).\<close>

definition argsBranch :: "string list" where
  "argsBranch = [''rev-parse'', ''--abbrev-ref'', ''HEAD'']"

definition argsFetch :: "string \<Rightarrow> string list" where
  "argsFetch branch = [''fetch'', ''origin'', branch, ''--quiet'']"

definition argsRevList :: "string \<Rightarrow> string list" where
  "argsRevList branch =
     [''rev-list'', ''--left-right'', ''--count'', ''origin/'' @ branch @ ''...'' @ branch]"

definition argsStatus :: "string list" where
  "argsStatus = [''status'', ''--porcelain'']"

text \<open>
  \<^verbatim>\<open>AssertBranchIsCleanAndSynced()\<close>: the error returned (\<open>None\<close> for \<^verbatim>\<open>nil\<close>) and the git
  calls made.
\<close>

definition AssertBranchIsCleanAndSynced :: "host \<Rightarrow> error option \<times> call list" where
  "AssertBranchIsCleanAndSynced h =
     (let ((branch0, err1), calls1) =
            gitOutput h argsBranch []
      in
      case err1 of
        Some e1 \<Rightarrow> (Some (CommandError e1), calls1)
      | None \<Rightarrow>
          let branch = TrimSpace branch0;
              ((fetched, err2), calls2) =
                gitOutput h (argsFetch branch) calls1
          in
          case err2 of
            Some e2 \<Rightarrow> (Some (CommandError e2), calls2)
          | None \<Rightarrow>
              let ((status, err3), calls3) = gitOutput h (argsRevList branch) calls2
              in
              case err3 of
                Some e3 \<Rightarrow> (Some (CommandError e3), calls3)
              | None \<Rightarrow>
                  let parts = Fields status in
                  if length parts \<noteq> 2 then (Some UnexpectedOutputError, calls3)
                  else if parts ! 0 \<noteq> ''0'' then (Some (BranchBehindError branch), calls3)
                  else if parts ! 1 \<noteq> ''0'' then (Some (BranchAheadError branch), calls3)
                  else
                    let ((changes, err4), calls4) =
                          gitOutput h argsStatus calls3
                    in
                    case err4 of
                      Some e4 \<Rightarrow> (Some (CommandError e4), calls4)
                    | None \<Rightarrow>
                        if TrimSpace changes \<noteq> '''' then (Some UncommittedChangesError, calls4)
                        else (None, calls4))"

section \<open>Small hosts for concrete runs\<close>

text \<open>
  A working tree \<^verbatim>\<open>/repo\<close> holding the files \<^verbatim>\<open>a.txt\<close>, \<^verbatim>\<open>b.txt\<close> and \<^verbatim>\<open>x[1].txt\<close>, the
  directory \<^verbatim>\<open>[id]\<close> and the directory \<^verbatim>\<open>sub\<close> with the file \<^verbatim>\<open>inner.txt\<close>. Every path
  used below is already clean, so \<open>Clean\<close> is the identity; a pattern matches what
  \<^verbatim>\<open>filepath.Glob\<close> would match in this tree (\<^verbatim>\<open>[1]\<close> and \<^verbatim>\<open>[id]\<close> are character classes,
  and no file is named \<^verbatim>\<open>x1.txt\<close>, \<^verbatim>\<open>i\<close> or \<^verbatim>\<open>d\<close>).
\<close>

definition demoJoin :: "string \<Rightarrow> string \<Rightarrow> string" where
  "demoJoin d n = d @ ''/'' @ n"

definition demoDir :: "string \<Rightarrow> string" where
  "demoDir p = rev (drop 1 (dropWhile (\<lambda>c. c \<noteq> CHR ''/'') (rev p)))"

definition demoGlob :: "string \<Rightarrow> oserr + string list" where
  "demoGlob p =
     (if p = ''/repo/*.txt'' then Inr [''/repo/a.txt'', ''/repo/b.txt'', ''/repo/x[1].txt'']
      else if p = ''/repo/x*.txt'' then Inr [''/repo/x[1].txt'']
      else if p = ''/repo/[ab].txt'' then Inr [''/repo/a.txt'', ''/repo/b.txt'']
      else if p = ''/repo/s*'' then Inr [''/repo/sub'']
      else Inr [])"

definition demoStat :: "string \<Rightarrow> oserr + bool" where
  "demoStat p =
     (if p = ''/repo'' \<or> p = ''/repo/sub'' \<or> p = ''/repo/[id]'' then Inr True
      else if p = ''/repo/a.txt'' \<or> p = ''/repo/b.txt'' \<or> p = ''/repo/x[1].txt''
            \<or> p = ''/repo/sub/inner.txt'' then Inr False
      else Inl ''no such file or directory'')"

definition demoReadDir :: "string \<Rightarrow> oserr + DirEntry list" where
  "demoReadDir p =
     (if p = ''/repo'' then
        Inr [\<lparr>Name = ''[id]'', IsDir = True\<rparr>, \<lparr>Name = ''a.txt'', IsDir = False\<rparr>,
             \<lparr>Name = ''b.txt'', IsDir = False\<rparr>, \<lparr>Name = ''sub'', IsDir = True\<rparr>,
             \<lparr>Name = ''x[1].txt'', IsDir = False\<rparr>]
      else if p = ''/repo/sub'' then Inr [\<lparr>Name = ''inner.txt'', IsDir = False\<rparr>]
      else if p = ''/repo/[id]'' then Inr []
      else Inl ''not a directory'')"

text \<open>
  git answering the three \<^verbatim>\<open>log\<close> queries with the given texts, whatever the paths, and
  failing on anything else.
\<close>

definition demoGit ::
  "string \<Rightarrow> string \<Rightarrow> string \<Rightarrow> string \<Rightarrow> string list \<Rightarrow> string \<times> oserr option" where
  "demoGit outHash outDate outCount dir args =
     (if take 5 args = baseArgsHash then (outHash, None)
      else if take 6 args = baseArgsDate then (outDate, None)
      else if take 4 args = baseArgsCount then (outCount, None)
      else (''git: unknown command'', Some ''exit status 1''))"

definition demoHost :: "string \<Rightarrow> string \<Rightarrow> string \<Rightarrow> host" where
  "demoHost outHash outDate outCount =
     \<lparr>Clean = (\<lambda>p. p), Join = demoJoin, Dir = demoDir, Glob = demoGlob, Stat = demoStat,
      ReadDir = demoReadDir, Run = demoGit outHash outDate outCount\<rparr>"

text \<open>The history query answering \<open>n + 1\<close> commits, all of 2025-09-11.\<close>

definition sameDay :: "nat \<Rightarrow> string" where
  "sameDay n = concat (replicate n ''2025-09-11\<newline>'') @ ''2025-09-11''"

text \<open>
  git on a branch: the four commands of the sync check answer the given texts and
  errors, in the order branch name, fetch, ahead/behind counts, status.
\<close>

definition syncGit ::
  "string \<times> oserr option \<Rightarrow> string \<times> oserr option \<Rightarrow> string \<times> oserr option \<Rightarrow>
   string \<times> oserr option \<Rightarrow> string \<Rightarrow> string list \<Rightarrow> string \<times> oserr option" where
  "syncGit r1 r2 r3 r4 dir args =
     (if args = argsBranch then r1
      else if take 2 args = [''fetch'', ''origin''] then r2
      else if take 1 args = [''rev-list''] then r3
      else if args = argsStatus then r4
      else (''git: unknown command'', Some ''exit status 1''))"

definition syncHost ::
  "string \<times> oserr option \<Rightarrow> string \<times> oserr option \<Rightarrow> string \<times> oserr option \<Rightarrow>
   string \<times> oserr option \<Rightarrow> host" where
  "syncHost r1 r2 r3 r4 =
     \<lparr>Clean = (\<lambda>p. p), Join = demoJoin, Dir = demoDir, Glob = demoGlob, Stat = demoStat,
      ReadDir = demoReadDir, Run = syncGit r1 r2 r3 r4\<rparr>"





section \<open>Lowercase letters\<close>

text \<open>The ASCII lowercase letters \<^verbatim>\<open>a\<close> to \<^verbatim>\<open>z\<close>, by their byte value.\<close>

definition lowerLetter :: "char \<Rightarrow> bool" where
  "lowerLetter c =
     ((of_char CHR ''a'' :: nat) \<le> of_char c \<and> (of_char c :: nat) \<le> of_char CHR ''z'')"

section \<open>Facts about the model\<close>

subsection \<open>The git calls and the stages of GetVersionMetadata\<close>

lemma gitOutputIn_eq:
  "gitOutputIn h dir args calls =
     ((TrimSpace (fst (Run h dir args)), snd (Run h dir args)), calls @ [(dir, args)])"
  by (simp add: gitOutputIn_def split: prod.splits)

lemma gitOutput_eq:
  "gitOutput h args calls =
     ((TrimSpace (fst (Run h '''' args)), snd (Run h '''' args)), calls @ [('''', args)])"
  by (simp add: gitOutput_def gitOutputIn_eq)

lemma GetVersionMetadata_unresolved:
  "resolveTargets h (defaultTargets targets) [] = Inl e \<Longrightarrow>
   GetVersionMetadata h targets = (('''', '''', Some e), [])"
  by (simp add: GetVersionMetadata_def)

lemma GetVersionMetadata_nothing:
  "resolveTargets h (defaultTargets targets) [] = Inr [] \<Longrightarrow>
   GetVersionMetadata h targets = (('''', '''', Some EmptyResolutionError), [])"
  by (simp add: GetVersionMetadata_def)

lemma GetVersionMetadata_hash_fails:
  assumes "resolveTargets h (defaultTargets targets) [] = Inr resolved" and "resolved \<noteq> []"
    and "snd (Run h (workDirOf h resolved) (baseArgsHash @ resolved)) = Some e"
  shows "GetVersionMetadata h targets =
     (('''', '''', Some (BackendQueryError ''git log hash'' e)),
      [(workDirOf h resolved, baseArgsHash @ resolved)])"
  using assms by (simp add: GetVersionMetadata_def gitOutputIn_eq Let_def)

lemma GetVersionMetadata_date_fails:
  assumes "resolveTargets h (defaultTargets targets) [] = Inr resolved" and "resolved \<noteq> []"
    and "snd (Run h (workDirOf h resolved) (baseArgsHash @ resolved)) = None"
    and "snd (Run h (workDirOf h resolved) (baseArgsDate @ resolved)) = Some e"
  shows "GetVersionMetadata h targets =
     (('''', '''', Some (BackendQueryError ''git log date'' e)),
      [(workDirOf h resolved, baseArgsHash @ resolved),
       (workDirOf h resolved, baseArgsDate @ resolved)])"
  using assms by (simp add: GetVersionMetadata_def gitOutputIn_eq Let_def)

lemma GetVersionMetadata_count_fails:
  assumes "resolveTargets h (defaultTargets targets) [] = Inr resolved" and "resolved \<noteq> []"
    and "snd (Run h (workDirOf h resolved) (baseArgsHash @ resolved)) = None"
    and "snd (Run h (workDirOf h resolved) (baseArgsDate @ resolved)) = None"
    and "snd (Run h (workDirOf h resolved) (baseArgsCount @ resolved)) = Some e"
  shows "GetVersionMetadata h targets =
     (('''', '''', Some (BackendQueryError ''git log count'' e)),
      [(workDirOf h resolved, baseArgsHash @ resolved),
       (workDirOf h resolved, baseArgsDate @ resolved),
       (workDirOf h resolved, baseArgsCount @ resolved)])"
  using assms by (simp add: GetVersionMetadata_def gitOutputIn_eq Let_def)

lemma GetVersionMetadata_answers:
  assumes "resolveTargets h (defaultTargets targets) [] = Inr resolved" and "resolved \<noteq> []"
    and "Run h (workDirOf h resolved) (baseArgsHash @ resolved) = (outHash, None)"
    and "Run h (workDirOf h resolved) (baseArgsDate @ resolved) = (outDate, None)"
    and "Run h (workDirOf h resolved) (baseArgsCount @ resolved) = (outCount, None)"
  shows "GetVersionMetadata h targets =
     ((commitDateOf (TrimSpace outDate)
         (suffixOf (sameDateCount (TrimSpace outCount) (TrimSpace outDate))),
       TrimSpace outHash, None),
      [(workDirOf h resolved, baseArgsHash @ resolved),
       (workDirOf h resolved, baseArgsDate @ resolved),
       (workDirOf h resolved, baseArgsCount @ resolved)])"
  using assms by (simp add: GetVersionMetadata_def gitOutputIn_eq Let_def)

subsection \<open>Counting the lines of the history\<close>

lemma countLines_filter:
  "countLines ls d count = count + int (length (filter (\<lambda>line. TrimSpace line = d) ls))"
  by (induction ls arbitrary: count) auto

lemma sameDateCount_filter:
  "sameDateCount countStr d =
     int (length (filter (\<lambda>line. TrimSpace line = d) (Split countStr CHR 0x0A)))"
  by (simp add: sameDateCount_def countLines_filter)

lemma GetVersionMetadata_counted:
  assumes "resolveTargets h (defaultTargets targets) [] = Inr resolved" and "resolved \<noteq> []"
    and "Run h (workDirOf h resolved) (baseArgsHash @ resolved) = (outHash, None)"
    and "Run h (workDirOf h resolved) (baseArgsDate @ resolved) = (outDate, None)"
    and "Run h (workDirOf h resolved) (baseArgsCount @ resolved) = (outCount, None)"
    and "n = length (filter (\<lambda>line. TrimSpace line = TrimSpace outDate)
                 (Split (TrimSpace outCount) CHR 0x0A))"
  shows "fst (GetVersionMetadata h targets) =
     (commitDateOf (TrimSpace outDate) (suffixOf (int n)), TrimSpace outHash, None)"
  using GetVersionMetadata_answers [OF assms(1-5)] assms(6)
  by (simp add: sameDateCount_filter)

subsection \<open>The suffix\<close>

lemma rune_small: "0 \<le> i \<Longrightarrow> i < 2147483648 \<Longrightarrow> rune i = i"
  by (simp add: rune_def int_word_sint)

lemma of_char_byte: "0 \<le> i \<Longrightarrow> i < 256 \<Longrightarrow> (of_char (byte i) :: int) = i"
  by (simp add: byte_def)

lemma runeString_nonempty: "runeString r \<noteq> []"
  by (simp add: runeString_def)

lemma runeString_ascii: "0 \<le> r \<Longrightarrow> r < 128 \<Longrightarrow> runeString r = [byte r]"
  by (simp add: runeString_def)

lemma runeString_a: "runeString r = ''a'' \<longleftrightarrow> r = 97"
proof
  assume "r = 97"
  then show "runeString r = ''a''" by (simp add: runeString_def byte_def char_of_def)
next
  assume a: "runeString r = ''a''"
  show "r = 97"
  proof (cases "0 \<le> r \<and> r < 128")
    case True
    with a have "byte r = CHR ''a''" by (simp add: runeString_ascii)
    then have "(of_char (byte r) :: int) = of_char CHR ''a''" by simp
    with True show ?thesis by (simp add: of_char_byte)
  next
    case False
    with a show ?thesis by (auto simp: runeString_def split: if_splits)
  qed
qed

lemma rune_wrap:
  assumes "2147483648 \<le> i" and "i < 6442450944"
  shows "rune i = i - 4294967296"
proof -
  have e: "i + 2147483648 = (i - 2147483648) + 4294967296" by simp
  have "(i + 2147483648) mod 4294967296 = (i - 2147483648) mod 4294967296"
    by (subst e) (rule mod_add_self2)
  also have "\<dots> = i - 2147483648" using assms by (intro mod_pos_pos_trivial) simp_all
  finally show ?thesis by (simp add: rune_def int_word_sint)
qed

lemma rune_not_a:
  assumes "2 \<le> count" and "count \<le> 4294967296"
  shows "rune (97 + count - 1) \<noteq> 97"
proof (cases "97 + count - 1 < 2147483648")
  case True
  with assms have "rune (97 + count - 1) = 97 + count - 1" by (intro rune_small) simp_all
  with assms show ?thesis by simp
next
  case False
  with assms have "rune (97 + count - 1) = (97 + count - 1) - 4294967296"
    by (intro rune_wrap) simp_all
  with assms show ?thesis by simp
qed

lemma rune_wraps_to_a: "rune (97 + 4294967297 - 1) = 97"
  by (simp add: rune_def)

lemma suffixOf_small: "count \<le> 1 \<Longrightarrow> suffixOf count = ''''"
  by (simp add: suffixOf_def)

lemma suffixOf_letter:
  assumes "2 \<le> count" and "count \<le> 26"
  shows "suffixOf count = [byte (96 + count)]"
proof -
  have "rune (97 + count - 1) = 97 + count - 1" using assms by (intro rune_small) simp_all
  then show ?thesis using assms by (simp add: suffixOf_def runeString_ascii)
qed

lemma byte_lowerLetter:
  assumes "97 \<le> i" and "i \<le> 122"
  shows "lowerLetter (byte i)"
proof -
  have "(of_char (byte i) :: int) = i" using assms by (intro of_char_byte) simp_all
  then have "int (of_char (byte i)) = i" by (simp add: of_char_def)
  with assms show ?thesis by (simp add: lowerLetter_def)
qed

lemma suffixOf_not_a:
  assumes "2 \<le> count" and "count \<le> 4294967296"
  shows "suffixOf count \<noteq> ''''" and "suffixOf count \<noteq> ''a''"
  using assms rune_not_a [OF assms]
  by (simp_all add: suffixOf_def runeString_nonempty runeString_a)


lemma commitDateOf_suffix: "s \<noteq> '''' \<Longrightarrow> s \<noteq> ''a'' \<Longrightarrow> commitDateOf d s = d @ ''-'' @ s"
  by (simp add: commitDateOf_def)


lemma suffixOf_2: "suffixOf 2 = ''b''"
  by (simp add: suffixOf_def runeString_def rune_def byte_def char_of_def)

lemma suffixOf_3: "suffixOf 3 = ''c''"
  by (simp add: suffixOf_def runeString_def rune_def byte_def char_of_def)

lemma suffixOf_4: "suffixOf 4 = ''d''"
  by (simp add: suffixOf_def runeString_def rune_def byte_def char_of_def)

lemma suffixOf_27: "suffixOf 27 = ''{''"
  by (simp add: suffixOf_def runeString_def rune_def byte_def char_of_def)


subsection \<open>Resolving targets\<close>

lemma defaultTargets_nonempty: "targets \<noteq> [] \<Longrightarrow> defaultTargets targets = targets"
  by (simp add: defaultTargets_def)


lemma resolveTargets_append:
  "resolveTargets h (xs @ ys) resolved =
     (case resolveTargets h xs resolved of
        Inl e \<Rightarrow> Inl e
      | Inr resolved' \<Rightarrow> resolveTargets h ys resolved')"
  by (induction xs arbitrary: resolved) (auto split: sum.splits)

lemma resolveTarget_no_match:
  assumes "ContainsAny (Clean h (Path t)) ''*?[''" and "Glob h (Clean h (Path t)) = Inr []"
  shows "resolveTarget h t resolved = Inl (NoMatchError (Clean h (Path t)))"
  using assms by (simp add: resolveTarget_def)

lemma resolveTargets_no_match:
  assumes "t \<in> set targets"
    and "ContainsAny (Clean h (Path t)) ''*?[''" and "Glob h (Clean h (Path t)) = Inr []"
  shows "\<exists>e. resolveTargets h targets resolved = Inl e"
  using assms(1)
proof (induction targets arbitrary: resolved)
  case Nil
  then show ?case by simp
next
  case (Cons u us)
  show ?case
  proof (cases "resolveTarget h u resolved")
    case (Inl e)
    then show ?thesis by simp
  next
    case (Inr resolved')
    with resolveTarget_no_match [OF assms(2,3)] have "u \<noteq> t" by auto
    with Cons.prems have "t \<in> set us" by simp
    with Cons.IH Inr show ?thesis by simp
  qed
qed



lemma expandMatches_Cons:
  "expandMatches h inc (m # ms) resolved =
     (case resolvePath h m inc resolved of
        Inl e \<Rightarrow> Inl e
      | Inr resolved' \<Rightarrow> expandMatches h inc ms resolved')"
  by (simp add: resolvePath_def split: sum.splits)


lemma resolveTarget_literal:
  "\<not> ContainsAny (Clean h (Path t)) ''*?['' \<Longrightarrow>
   resolveTarget h t resolved = resolvePath h (Clean h (Path t)) (IncludeSubdirs t) resolved"
  by (simp add: resolveTarget_def)

lemma resolveTarget_pattern:
  assumes "ContainsAny (Clean h (Path t)) ''*?[''"
    and "Glob h (Clean h (Path t)) = Inr matches" and "matches \<noteq> []"
  shows "resolveTarget h t resolved = expandMatches h (IncludeSubdirs t) matches resolved"
  using assms by (simp add: resolveTarget_def)

lemma expandMatches_as_targets:
  assumes "\<forall>m \<in> set matches. Clean h m = m \<and> \<not> ContainsAny m ''*?[''"
  shows "expandMatches h inc matches resolved =
     resolveTargets h (map (\<lambda>m. \<lparr>Path = m, IncludeSubdirs = inc\<rparr>) matches) resolved"
  using assms
proof (induction matches arbitrary: resolved)
  case Nil
  then show ?case by simp
next
  case (Cons m ms)
  have "resolveTarget h \<lparr>Path = m, IncludeSubdirs = inc\<rparr> resolved =
      resolvePath h m inc resolved"
    using Cons.prems by (simp add: resolveTarget_literal)
  moreover have "expandMatches h inc ms resolved' =
      resolveTargets h (map (\<lambda>m. \<lparr>Path = m, IncludeSubdirs = inc\<rparr>) ms) resolved'"
    for resolved'
    using Cons.prems by (intro Cons.IH) simp
  ultimately show ?case
    by (simp add: expandMatches_Cons del: expandMatches.simps(2) split: sum.splits)
qed

lemma GetVersionMetadata_same_resolution:
  "resolveTargets h (defaultTargets targets) [] = resolveTargets h (defaultTargets targets') [] \<Longrightarrow>
   GetVersionMetadata h targets = GetVersionMetadata h targets'"
  by (simp add: GetVersionMetadata_def)

subsection \<open>The sync check\<close>

lemma AssertBranchIsCleanAndSynced_cases:
  assumes "Run h '''' argsBranch = (out1, err1)"
    and "branch = TrimSpace (TrimSpace out1)"
    and "Run h '''' (argsFetch branch) = (out2, err2)"
    and "Run h '''' (argsRevList branch) = (out3, err3)"
    and "parts = Fields (TrimSpace out3)"
    and "Run h '''' argsStatus = (out4, err4)"
    and "c1 = ('''', argsBranch)" and "c2 = ('''', argsFetch branch)"
    and "c3 = ('''', argsRevList branch)" and "c4 = ('''', argsStatus)"
  shows "AssertBranchIsCleanAndSynced h =
     (case err1 of
        Some e \<Rightarrow> (Some (CommandError e), [c1])
      | None \<Rightarrow>
     (case err2 of
        Some e \<Rightarrow> (Some (CommandError e), [c1, c2])
      | None \<Rightarrow>
     (case err3 of
        Some e \<Rightarrow> (Some (CommandError e), [c1, c2, c3])
      | None \<Rightarrow>
          if length parts \<noteq> 2 then (Some UnexpectedOutputError, [c1, c2, c3])
          else if parts ! 0 \<noteq> ''0'' then (Some (BranchBehindError branch), [c1, c2, c3])
          else if parts ! 1 \<noteq> ''0'' then (Some (BranchAheadError branch), [c1, c2, c3])
          else
            (case err4 of
               Some e \<Rightarrow> (Some (CommandError e), [c1, c2, c3, c4])
             | None \<Rightarrow>
                 if TrimSpace (TrimSpace out4) \<noteq> ''''
                 then (Some UncommittedChangesError, [c1, c2, c3, c4])
                 else (None, [c1, c2, c3, c4])))))"
  using assms
  by (simp add: AssertBranchIsCleanAndSynced_def gitOutput_eq Let_def split: option.splits)

lemma two_fields: "length parts = 2 \<Longrightarrow> parts = [parts ! 0, parts ! 1]"
  by (cases parts; cases "tl parts") auto

section \<open>The claims\<close>

subsection \<open>Claim C1\<close>

text \<open>
  C1, as amended. When the queries succeed and exactly two lines of the history, trimmed,
  equal the date of the latest commit, \<open>GetVersionMetadata\<close> returns that date followed by
  \<^verbatim>\<open>-b\<close>; it returns the bare date when at most one line equals it. One and two lines
  give different dates: the suffix is there at the second commit of the same date.
\<close>

theorem C1_second_same_date_commit_gets_b:
  assumes "resolveTargets h (defaultTargets targets) [] = Inr resolved" and "resolved \<noteq> []"
    and "Run h (workDirOf h resolved) (baseArgsHash @ resolved) = (outHash, None)"
    and "Run h (workDirOf h resolved) (baseArgsDate @ resolved) = (outDate, None)"
    and "Run h (workDirOf h resolved) (baseArgsCount @ resolved) = (outCount, None)"
    and "n = length (filter (\<lambda>line. TrimSpace line = TrimSpace outDate)
                 (Split (TrimSpace outCount) CHR 0x0A))"
  shows "(n = 2 \<longrightarrow> fst (GetVersionMetadata h targets) =
            (TrimSpace outDate @ ''-b'', TrimSpace outHash, None))
       \<and> (n \<le> 1 \<longrightarrow> fst (GetVersionMetadata h targets) =
            (TrimSpace outDate, TrimSpace outHash, None))"
proof -
  have "fst (GetVersionMetadata h targets) =
     (commitDateOf (TrimSpace outDate) (suffixOf (int n)), TrimSpace outHash, None)"
    using assms by (rule GetVersionMetadata_counted)
  then show ?thesis
    by (auto simp: suffixOf_2 suffixOf_small commitDateOf_def)
qed

text \<open>
  The theorem at work: the directory \<^verbatim>\<open>/repo\<close> without its subdirectories, with two
  commits of 2025-09-11 and then with one.
\<close>

theorem C1_second_same_date_commit_gets_b_witness:
  "fst (GetVersionMetadata (demoHost ''abc1234'' ''2025-09-11'' (sameDay 1))
          [\<lparr>Path = ''/repo'', IncludeSubdirs = False\<rparr>]) =
     (''2025-09-11-b'', ''abc1234'', None)
   \<and> fst (GetVersionMetadata (demoHost ''abc1234'' ''2025-09-11'' (sameDay 0))
          [\<lparr>Path = ''/repo'', IncludeSubdirs = False\<rparr>]) =
     (''2025-09-11'', ''abc1234'', None)"
proof -
  let ?T = "[\<lparr>Path = ''/repo'', IncludeSubdirs = False\<rparr>]"
  let ?R = "[''/repo/a.txt'', ''/repo/b.txt'', ''/repo/x[1].txt'']"
  let ?H = "\<lambda>k. demoHost ''abc1234'' ''2025-09-11'' (sameDay k)"
  have r: "resolveTargets (?H k) (defaultTargets ?T) [] = Inr ?R" for k
    by (simp add: defaultTargets_def resolveTarget_def resolvePath_def demoHost_def
        ContainsAny_def demoStat_def demoReadDir_def demoJoin_def)
  have ne: "?R \<noteq> []" by simp
  have w: "workDirOf (?H k) ?R = ''/repo''" for k
    by (simp add: workDirOf_def demoHost_def demoStat_def demoDir_def)
  have q1: "Run (?H k) (workDirOf (?H k) ?R) (baseArgsHash @ ?R) = (''abc1234'', None)" for k
    by (simp add: w) (simp add: demoHost_def demoGit_def baseArgsHash_def)
  have q2: "Run (?H k) (workDirOf (?H k) ?R) (baseArgsDate @ ?R) = (''2025-09-11'', None)" for k
    by (simp add: w) (simp add: demoHost_def demoGit_def baseArgsHash_def baseArgsDate_def)
  have q3: "Run (?H k) (workDirOf (?H k) ?R) (baseArgsCount @ ?R) = (sameDay k, None)" for k
    by (simp add: w)
       (simp add: demoHost_def demoGit_def baseArgsHash_def baseArgsDate_def baseArgsCount_def)
  have n2: "2 = length (filter (\<lambda>line. TrimSpace line = TrimSpace ''2025-09-11'')
                 (Split (TrimSpace (sameDay 1)) CHR 0x0A))"
    by code_simp
  have n1: "1 = length (filter (\<lambda>line. TrimSpace line = TrimSpace ''2025-09-11'')
                 (Split (TrimSpace (sameDay 0)) CHR 0x0A))"
    by code_simp
  have t: "TrimSpace ''2025-09-11'' = ''2025-09-11''" "TrimSpace ''abc1234'' = ''abc1234''"
    by code_simp+
  show ?thesis
    using C1_second_same_date_commit_gets_b [OF r ne q1 q2 q3 n2]
          C1_second_same_date_commit_gets_b [OF r ne q1 q2 q3 n1]
    by (simp add: t)
qed

text \<open>
  C1 as stated fails: two commits of \<^verbatim>\<open>b.txt\<close> on 2025-09-11, the case of the
  repository's test \<^verbatim>\<open>TestGetVersionMetadata_MultipleCommits_Suffix\<close>. Two lines of the
  history equal the date and the date returned ends in \<^verbatim>\<open>-b\<close>; it is not the bare date.
\<close>

theorem C1_counterexample:
  "sameDateCount (TrimSpace ''2025-09-11\<newline>2025-09-11'') (TrimSpace ''2025-09-11'') = 2
   \<and> fst (GetVersionMetadata (demoHost ''abc1234'' ''2025-09-11'' ''2025-09-11\<newline>2025-09-11'')
          [\<lparr>Path = ''/repo/b.txt'', IncludeSubdirs = False\<rparr>]) =
       (''2025-09-11-b'', ''abc1234'', None)
   \<and> fst (fst (GetVersionMetadata (demoHost ''abc1234'' ''2025-09-11'' ''2025-09-11\<newline>2025-09-11'')
          [\<lparr>Path = ''/repo/b.txt'', IncludeSubdirs = False\<rparr>])) \<noteq> ''2025-09-11''"
  by code_simp

subsection \<open>Claim C2\<close>

text \<open>
  C2, as amended. When the queries succeed and \<open>n\<close> lines of the history equal the date of
  the latest commit, with \<open>3 \<le> n \<le> 26\<close>, \<open>GetVersionMetadata\<close> returns the date followed
  by a hyphen and one lowercase letter, the letter \<^verbatim>\<open>'a' + (n - 1)\<close>: three lines give
  \<^verbatim>\<open>-c\<close> and four give \<^verbatim>\<open>-d\<close>.
\<close>

theorem C2_suffix_letter_is_a_plus_count_minus_1:
  assumes "resolveTargets h (defaultTargets targets) [] = Inr resolved" and "resolved \<noteq> []"
    and "Run h (workDirOf h resolved) (baseArgsHash @ resolved) = (outHash, None)"
    and "Run h (workDirOf h resolved) (baseArgsDate @ resolved) = (outDate, None)"
    and "Run h (workDirOf h resolved) (baseArgsCount @ resolved) = (outCount, None)"
    and "n = length (filter (\<lambda>line. TrimSpace line = TrimSpace outDate)
                 (Split (TrimSpace outCount) CHR 0x0A))"
  shows "(3 \<le> n \<and> n \<le> 26 \<longrightarrow>
            fst (GetVersionMetadata h targets) =
              (TrimSpace outDate @ ''-'' @ [byte (97 + (int n - 1))], TrimSpace outHash, None)
          \<and> lowerLetter (byte (97 + (int n - 1))))
       \<and> (n = 3 \<longrightarrow> fst (GetVersionMetadata h targets) =
            (TrimSpace outDate @ ''-c'', TrimSpace outHash, None))
       \<and> (n = 4 \<longrightarrow> fst (GetVersionMetadata h targets) =
            (TrimSpace outDate @ ''-d'', TrimSpace outHash, None))"
proof -
  have g: "fst (GetVersionMetadata h targets) =
     (commitDateOf (TrimSpace outDate) (suffixOf (int n)), TrimSpace outHash, None)"
    using assms by (rule GetVersionMetadata_counted)
  have "fst (GetVersionMetadata h targets) =
          (TrimSpace outDate @ ''-'' @ [byte (97 + (int n - 1))], TrimSpace outHash, None)
        \<and> lowerLetter (byte (97 + (int n - 1)))"
    if n: "3 \<le> n" "n \<le> 26"
  proof -
    have s: "suffixOf (int n) = [byte (96 + int n)]"
      using n by (intro suffixOf_letter) simp_all
    have "suffixOf (int n) \<noteq> ''''" "suffixOf (int n) \<noteq> ''a''"
      using n by (intro suffixOf_not_a; simp)+
    then have "commitDateOf (TrimSpace outDate) (suffixOf (int n)) =
        TrimSpace outDate @ ''-'' @ suffixOf (int n)"
      by (rule commitDateOf_suffix)
    moreover have "lowerLetter (byte (96 + int n))"
      using n by (intro byte_lowerLetter) simp_all
    moreover have "97 + (int n - 1) = 96 + int n" by simp
    ultimately show ?thesis using g s by simp
  qed
  moreover have "fst (GetVersionMetadata h targets) =
      (TrimSpace outDate @ ''-c'', TrimSpace outHash, None)" if "n = 3"
    using g that by (simp add: suffixOf_3 commitDateOf_def)
  moreover have "fst (GetVersionMetadata h targets) =
      (TrimSpace outDate @ ''-d'', TrimSpace outHash, None)" if "n = 4"
    using g that by (simp add: suffixOf_4 commitDateOf_def)
  ultimately show ?thesis by blast
qed

text \<open>
  The theorem at work: the two files matching \<^verbatim>\<open>/repo/[ab].txt\<close>, with four commits of
  2025-09-11.
\<close>

theorem C2_suffix_letter_is_a_plus_count_minus_1_witness:
  "fst (GetVersionMetadata (demoHost ''abc1234'' ''2025-09-11'' (sameDay 3))
          [\<lparr>Path = ''/repo/[ab].txt'', IncludeSubdirs = False\<rparr>]) =
     (''2025-09-11-d'', ''abc1234'', None)
   \<and> lowerLetter CHR ''d''"
proof -
  let ?T = "[\<lparr>Path = ''/repo/[ab].txt'', IncludeSubdirs = False\<rparr>]"
  let ?R = "[''/repo/a.txt'', ''/repo/b.txt'']"
  let ?H = "demoHost ''abc1234'' ''2025-09-11'' (sameDay 3)"
  have r: "resolveTargets ?H (defaultTargets ?T) [] = Inr ?R"
    by (simp add: defaultTargets_def resolveTarget_def demoHost_def ContainsAny_def
        demoGlob_def demoStat_def)
  have ne: "?R \<noteq> []" by simp
  have w: "workDirOf ?H ?R = ''/repo''"
    by (simp add: workDirOf_def demoHost_def demoStat_def demoDir_def)
  have q1: "Run ?H (workDirOf ?H ?R) (baseArgsHash @ ?R) = (''abc1234'', None)"
    by (simp add: w) (simp add: demoHost_def demoGit_def baseArgsHash_def)
  have q2: "Run ?H (workDirOf ?H ?R) (baseArgsDate @ ?R) = (''2025-09-11'', None)"
    by (simp add: w) (simp add: demoHost_def demoGit_def baseArgsHash_def baseArgsDate_def)
  have q3: "Run ?H (workDirOf ?H ?R) (baseArgsCount @ ?R) = (sameDay 3, None)"
    by (simp add: w)
       (simp add: demoHost_def demoGit_def baseArgsHash_def baseArgsDate_def baseArgsCount_def)
  have n4: "4 = length (filter (\<lambda>line. TrimSpace line = TrimSpace ''2025-09-11'')
                 (Split (TrimSpace (sameDay 3)) CHR 0x0A))"
    by code_simp
  have t: "TrimSpace ''2025-09-11'' = ''2025-09-11''" "TrimSpace ''abc1234'' = ''abc1234''"
    by code_simp+
  have b: "byte 100 = CHR ''d''"
    by (simp add: byte_def char_of_def)
  show ?thesis
    using C2_suffix_letter_is_a_plus_count_minus_1 [OF r ne q1 q2 q3 n4]
    by (simp add: t b)
qed

text \<open>
  C2 as stated fails: with three commits of \<^verbatim>\<open>b.txt\<close> on 2025-09-11 three lines of the
  history equal the date, and the date returned ends in \<^verbatim>\<open>-c\<close>, not in \<^verbatim>\<open>-b\<close>. And the
  character appended is a lowercase letter up to 26 lines only: for 27 it is the brace
  \<^verbatim>\<open>{\<close>.
\<close>

theorem C2_counterexample:
  "sameDateCount (TrimSpace (sameDay 2)) (TrimSpace ''2025-09-11'') = 3
   \<and> fst (GetVersionMetadata (demoHost ''abc1234'' ''2025-09-11'' (sameDay 2))
          [\<lparr>Path = ''/repo/b.txt'', IncludeSubdirs = False\<rparr>]) =
       (''2025-09-11-c'', ''abc1234'', None)
   \<and> fst (fst (GetVersionMetadata (demoHost ''abc1234'' ''2025-09-11'' (sameDay 2))
          [\<lparr>Path = ''/repo/b.txt'', IncludeSubdirs = False\<rparr>])) \<noteq> ''2025-09-11-b''
   \<and> commitDateOf ''2025-09-11'' (suffixOf 27) = ''2025-09-11-{''
   \<and> \<not> lowerLetter CHR ''{''"
proof -
  have "sameDateCount (TrimSpace (sameDay 2)) (TrimSpace ''2025-09-11'') = 3
   \<and> fst (GetVersionMetadata (demoHost ''abc1234'' ''2025-09-11'' (sameDay 2))
          [\<lparr>Path = ''/repo/b.txt'', IncludeSubdirs = False\<rparr>]) =
       (''2025-09-11-c'', ''abc1234'', None)
   \<and> fst (fst (GetVersionMetadata (demoHost ''abc1234'' ''2025-09-11'' (sameDay 2))
          [\<lparr>Path = ''/repo/b.txt'', IncludeSubdirs = False\<rparr>])) \<noteq> ''2025-09-11-b''"
    by code_simp
  moreover have "commitDateOf ''2025-09-11'' (suffixOf 27) = ''2025-09-11-{''"
    by (simp add: suffixOf_27 commitDateOf_def)
  moreover have "\<not> lowerLetter CHR ''{''"
    by (simp add: lowerLetter_def)
  ultimately show ?thesis by simp
qed

subsection \<open>Claim C3\<close>




subsection \<open>Claim C4\<close>




subsection \<open>Claim C5\<close>

text \<open>
  C5. Name what the host answers to the four commands: \<open>(out1, err1)\<close> for the branch name,
  \<open>(out2, err2)\<close> for the fetch, \<open>(out3, err3)\<close> for the ahead and behind counts, the fields
  of its output being \<open>parts\<close>, and \<open>(out4, err4)\<close> for the status. Then
  \<open>AssertBranchIsCleanAndSynced\<close>
  \<^item> runs an initial part of the four commands, in this order, and nothing else;
  \<^item> stops at the first command that fails, returning its error after exactly that
    many commands;
  \<^item> reports the branch as behind when the first field is not \<^verbatim>\<open>0\<close>, whatever the second
    field, and as ahead only when the first field is \<^verbatim>\<open>0\<close>; in both cases the status is
    never asked for;
  \<^item> reports uncommitted changes only when no command failed and both fields are \<^verbatim>\<open>0\<close>.
\<close>

theorem C5_checks_in_order_first_failure_wins:
  assumes "Run h '''' argsBranch = (out1, err1)"
    and "branch = TrimSpace (TrimSpace out1)"
    and "Run h '''' (argsFetch branch) = (out2, err2)"
    and "Run h '''' (argsRevList branch) = (out3, err3)"
    and "parts = Fields (TrimSpace out3)"
    and "Run h '''' argsStatus = (out4, err4)"
    and "calls = [('''', argsBranch), ('''', argsFetch branch),
                  ('''', argsRevList branch), ('''', argsStatus)]"
  shows "(\<exists>k. 1 \<le> k \<and> k \<le> 4 \<and> snd (AssertBranchIsCleanAndSynced h) = take k calls)
       \<and> (\<forall>e. err1 = Some e \<longrightarrow>
            AssertBranchIsCleanAndSynced h = (Some (CommandError e), take 1 calls))
       \<and> (\<forall>e. err1 = None \<and> err2 = Some e \<longrightarrow>
            AssertBranchIsCleanAndSynced h = (Some (CommandError e), take 2 calls))
       \<and> (\<forall>e. err1 = None \<and> err2 = None \<and> err3 = Some e \<longrightarrow>
            AssertBranchIsCleanAndSynced h = (Some (CommandError e), take 3 calls))
       \<and> (err1 = None \<and> err2 = None \<and> err3 = None \<and> length parts = 2 \<and> parts ! 0 \<noteq> ''0'' \<longrightarrow>
            AssertBranchIsCleanAndSynced h = (Some (BranchBehindError branch), take 3 calls))
       \<and> (err1 = None \<and> err2 = None \<and> err3 = None \<and> length parts = 2 \<and> parts ! 0 = ''0''
            \<and> parts ! 1 \<noteq> ''0'' \<longrightarrow>
            AssertBranchIsCleanAndSynced h = (Some (BranchAheadError branch), take 3 calls))
       \<and> (\<forall>e. err1 = None \<and> err2 = None \<and> err3 = None \<and> parts = [''0'', ''0'']
            \<and> err4 = Some e \<longrightarrow>
            AssertBranchIsCleanAndSynced h = (Some (CommandError e), calls))
       \<and> (err1 = None \<and> err2 = None \<and> err3 = None \<and> parts = [''0'', ''0''] \<and> err4 = None
            \<and> TrimSpace (TrimSpace out4) \<noteq> '''' \<longrightarrow>
            AssertBranchIsCleanAndSynced h = (Some UncommittedChangesError, calls))
       \<and> (\<forall>b. fst (AssertBranchIsCleanAndSynced h) = Some (BranchAheadError b) \<longrightarrow>
            parts ! 0 = ''0'')
       \<and> (fst (AssertBranchIsCleanAndSynced h) = Some UncommittedChangesError \<longrightarrow>
            err1 = None \<and> err2 = None \<and> err3 = None \<and> err4 = None \<and> parts = [''0'', ''0''])"
proof -
  note A = AssertBranchIsCleanAndSynced_cases [OF assms(1-6) refl refl refl refl]
  have order: "\<exists>k. 1 \<le> k \<and> k \<le> 4 \<and> snd (AssertBranchIsCleanAndSynced h) = take k calls"
  proof -
    have "snd (AssertBranchIsCleanAndSynced h) = take 1 calls
        \<or> snd (AssertBranchIsCleanAndSynced h) = take 2 calls
        \<or> snd (AssertBranchIsCleanAndSynced h) = take 3 calls
        \<or> snd (AssertBranchIsCleanAndSynced h) = take 4 calls"
      unfolding A assms(7) by (simp split: option.splits)
    then show ?thesis
    proof (elim disjE)
      assume "snd (AssertBranchIsCleanAndSynced h) = take 1 calls"
      then show ?thesis by (intro exI [of _ 1]) simp
    next
      assume "snd (AssertBranchIsCleanAndSynced h) = take 2 calls"
      then show ?thesis by (intro exI [of _ 2]) simp
    next
      assume "snd (AssertBranchIsCleanAndSynced h) = take 3 calls"
      then show ?thesis by (intro exI [of _ 3]) simp
    next
      assume "snd (AssertBranchIsCleanAndSynced h) = take 4 calls"
      then show ?thesis by (intro exI [of _ 4]) simp
    qed
  qed
  have uncommitted: "err1 = None \<and> err2 = None \<and> err3 = None \<and> err4 = None
      \<and> parts = [''0'', ''0'']"
    if "fst (AssertBranchIsCleanAndSynced h) = Some UncommittedChangesError"
  proof -
    from that have "err1 = None \<and> err2 = None \<and> err3 = None \<and> err4 = None
        \<and> length parts = 2 \<and> parts ! 0 = ''0'' \<and> parts ! 1 = ''0''"
      unfolding A by (simp split: option.splits if_splits)
    then show ?thesis using two_fields [of parts] by simp
  qed
  have ahead: "parts ! 0 = ''0''"
    if "fst (AssertBranchIsCleanAndSynced h) = Some (BranchAheadError b)" for b
    using that unfolding A by (simp split: option.splits if_splits)
  have rest: "(\<forall>e. err1 = Some e \<longrightarrow>
            AssertBranchIsCleanAndSynced h = (Some (CommandError e), take 1 calls))
       \<and> (\<forall>e. err1 = None \<and> err2 = Some e \<longrightarrow>
            AssertBranchIsCleanAndSynced h = (Some (CommandError e), take 2 calls))
       \<and> (\<forall>e. err1 = None \<and> err2 = None \<and> err3 = Some e \<longrightarrow>
            AssertBranchIsCleanAndSynced h = (Some (CommandError e), take 3 calls))
       \<and> (err1 = None \<and> err2 = None \<and> err3 = None \<and> length parts = 2 \<and> parts ! 0 \<noteq> ''0'' \<longrightarrow>
            AssertBranchIsCleanAndSynced h = (Some (BranchBehindError branch), take 3 calls))
       \<and> (err1 = None \<and> err2 = None \<and> err3 = None \<and> length parts = 2 \<and> parts ! 0 = ''0''
            \<and> parts ! 1 \<noteq> ''0'' \<longrightarrow>
            AssertBranchIsCleanAndSynced h = (Some (BranchAheadError branch), take 3 calls))
       \<and> (\<forall>e. err1 = None \<and> err2 = None \<and> err3 = None \<and> parts = [''0'', ''0'']
            \<and> err4 = Some e \<longrightarrow>
            AssertBranchIsCleanAndSynced h = (Some (CommandError e), calls))
       \<and> (err1 = None \<and> err2 = None \<and> err3 = None \<and> parts = [''0'', ''0''] \<and> err4 = None
            \<and> TrimSpace (TrimSpace out4) \<noteq> '''' \<longrightarrow>
            AssertBranchIsCleanAndSynced h = (Some UncommittedChangesError, calls))"
    unfolding A assms(7) by simp
  have ahead': "\<forall>b. fst (AssertBranchIsCleanAndSynced h) = Some (BranchAheadError b) \<longrightarrow>
      parts ! 0 = ''0''"
    using ahead by blast
  have uncommitted': "fst (AssertBranchIsCleanAndSynced h) = Some UncommittedChangesError \<longrightarrow>
      err1 = None \<and> err2 = None \<and> err3 = None \<and> err4 = None \<and> parts = [''0'', ''0'']"
    using uncommitted by blast
  show ?thesis
    using order rest ahead' uncommitted' by (intro conjI) (elim conjE, assumption)+
qed

text \<open>
  The theorem at work on the branch \<^verbatim>\<open>main\<close>. Behind by three and ahead by two (git
  prints the two counts with a tab between them): the behind error, after three
  commands. Even with the remote, with a modified file: the uncommitted changes, after
  four commands. A fetch that fails: its error, after two.
\<close>

theorem C5_checks_in_order_first_failure_wins_witness:
  "AssertBranchIsCleanAndSynced
     (syncHost (''main\<newline>'', None) ('''', None) (''3'' @ [CHR 0x09] @ ''2'', None)
        ('' M file.go'', None)) =
     (Some (BranchBehindError ''main''),
      [('''', argsBranch), ('''', argsFetch ''main''), ('''', argsRevList ''main'')])
   \<and> AssertBranchIsCleanAndSynced
     (syncHost (''main\<newline>'', None) ('''', None) (''0 0'', None) ('' M file.go'', None)) =
     (Some UncommittedChangesError,
      [('''', argsBranch), ('''', argsFetch ''main''), ('''', argsRevList ''main''),
       ('''', argsStatus)])
   \<and> AssertBranchIsCleanAndSynced
     (syncHost (''main\<newline>'', None) (''fatal: no remote'', Some ''exit status 128'')
        (''0 0'', None) ('''', None)) =
     (Some (CommandError ''exit status 128''), [('''', argsBranch), ('''', argsFetch ''main'')])"
proof -
  let ?calls = "[('''', argsBranch), ('''', argsFetch ''main''),
                 ('''', argsRevList ''main''), ('''', argsStatus)]"
  let ?H1 = "syncHost (''main\<newline>'', None) ('''', None) (''3'' @ [CHR 0x09] @ ''2'', None)
               ('' M file.go'', None)"
  let ?H2 = "syncHost (''main\<newline>'', None) ('''', None) (''0 0'', None) ('' M file.go'', None)"
  let ?H3 = "syncHost (''main\<newline>'', None) (''fatal: no remote'', Some ''exit status 128'')
               (''0 0'', None) ('''', None)"
  have b: "''main'' = TrimSpace (TrimSpace ''main\<newline>'')"
    by code_simp
  have q1: "Run (syncHost (o1, e1) (o2, e2) (o3, e3) (o4, e4)) '''' argsBranch = (o1, e1)"
    for o1 e1 o2 e2 o3 e3 o4 e4
    by (simp add: syncHost_def syncGit_def)
  have q2: "Run (syncHost (o1, e1) (o2, e2) (o3, e3) (o4, e4)) '''' (argsFetch ''main'') = (o2, e2)"
    for o1 e1 o2 e2 o3 e3 o4 e4
    by (simp add: syncHost_def syncGit_def argsFetch_def argsBranch_def)
  have q3: "Run (syncHost (o1, e1) (o2, e2) (o3, e3) (o4, e4)) '''' (argsRevList ''main'') = (o3, e3)"
    for o1 e1 o2 e2 o3 e3 o4 e4
    by (simp add: syncHost_def syncGit_def argsRevList_def argsBranch_def)
  have q4: "Run (syncHost (o1, e1) (o2, e2) (o3, e3) (o4, e4)) '''' argsStatus = (o4, e4)"
    for o1 e1 o2 e2 o3 e3 o4 e4
    by (simp add: syncHost_def syncGit_def argsStatus_def argsBranch_def)
  have f1: "[''3'', ''2''] = Fields (TrimSpace (''3'' @ [CHR 0x09] @ ''2''))"
    by code_simp
  have f2: "[''0'', ''0''] = Fields (TrimSpace ''0 0'')"
    by code_simp
  have d: "TrimSpace (TrimSpace '' M file.go'') \<noteq> ''''"
    by code_simp
  have "AssertBranchIsCleanAndSynced ?H1 = (Some (BranchBehindError ''main''), take 3 ?calls)"
    using C5_checks_in_order_first_failure_wins
      [of ?H1, OF q1 b q2 q3 f1 q4 refl]
    by simp
  moreover have "AssertBranchIsCleanAndSynced ?H2 = (Some UncommittedChangesError, ?calls)"
    using C5_checks_in_order_first_failure_wins
      [of ?H2, OF q1 b q2 q3 f2 q4 refl] d
    by simp
  moreover have "AssertBranchIsCleanAndSynced ?H3 =
      (Some (CommandError ''exit status 128''), take 2 ?calls)"
    using C5_checks_in_order_first_failure_wins
      [of ?H3, OF q1 b q2 q3 f2 q4 refl]
    by simp
  ultimately show ?thesis by simp
qed

subsection \<open>Claim C6\<close>

text \<open>
  C6. When the branch name, the fetch and the query of the ahead and behind counts have
  succeeded, \<open>AssertBranchIsCleanAndSynced\<close> splits the output of the query into fields at
  white space and
  \<^item> returns the \<open>UnexpectedOutputError\<close> whenever there are not exactly two fields, and
    only then;
  \<^item> returns the \<open>BranchBehindError\<close> naming the branch when the first of two fields is
    not \<^verbatim>\<open>0\<close>;
  \<^item> returns the \<open>BranchAheadError\<close> naming the branch when the first is \<^verbatim>\<open>0\<close> and the
    second is not; a second field other than \<^verbatim>\<open>0\<close> always gives one of the two errors.
  The fields are compared with the text \<^verbatim>\<open>0\<close>; a count that is not zero is never that
  text.
\<close>

theorem C6_ahead_behind_fields:
  assumes "Run h '''' argsBranch = (out1, None)"
    and "branch = TrimSpace (TrimSpace out1)"
    and "Run h '''' (argsFetch branch) = (out2, None)"
    and "Run h '''' (argsRevList branch) = (out3, None)"
    and "parts = Fields (TrimSpace out3)"
  shows "(length parts \<noteq> 2 \<longrightarrow>
            fst (AssertBranchIsCleanAndSynced h) = Some UnexpectedOutputError)
       \<and> (fst (AssertBranchIsCleanAndSynced h) = Some UnexpectedOutputError \<longrightarrow>
            length parts \<noteq> 2)
       \<and> (length parts = 2 \<and> parts ! 0 \<noteq> ''0'' \<longrightarrow>
            fst (AssertBranchIsCleanAndSynced h) = Some (BranchBehindError branch))
       \<and> (length parts = 2 \<and> parts ! 0 = ''0'' \<and> parts ! 1 \<noteq> ''0'' \<longrightarrow>
            fst (AssertBranchIsCleanAndSynced h) = Some (BranchAheadError branch))
       \<and> (length parts = 2 \<and> parts ! 1 \<noteq> ''0'' \<longrightarrow>
            fst (AssertBranchIsCleanAndSynced h) = Some (BranchBehindError branch)
          \<or> fst (AssertBranchIsCleanAndSynced h) = Some (BranchAheadError branch))"
proof -
  obtain out4 err4 where s: "Run h '''' argsStatus = (out4, err4)"
    by (cases "Run h '''' argsStatus")
  note A = AssertBranchIsCleanAndSynced_cases [OF assms s refl refl refl refl]
  show ?thesis
    unfolding A by (simp split: option.splits)
qed

text \<open>
  The theorem at work on the branch \<^verbatim>\<open>main\<close>: the output \<^verbatim>\<open>0 5\<close> gives the ahead error,
  \<^verbatim>\<open>4 5\<close> the behind error, and the three fields of \<^verbatim>\<open>1 2 3\<close> the unexpected output.
\<close>

theorem C6_ahead_behind_fields_witness:
  "fst (AssertBranchIsCleanAndSynced
     (syncHost (''main'', None) ('''', None) (''0 5'', None) ('''', None))) =
     Some (BranchAheadError ''main'')
   \<and> fst (AssertBranchIsCleanAndSynced
     (syncHost (''main'', None) ('''', None) (''4 5'', None) ('''', None))) =
     Some (BranchBehindError ''main'')
   \<and> fst (AssertBranchIsCleanAndSynced
     (syncHost (''main'', None) ('''', None) (''1 2 3'', None) ('''', None))) =
     Some UnexpectedOutputError"
proof -
  have b: "''main'' = TrimSpace (TrimSpace ''main'')"
    by code_simp
  have q1: "Run (syncHost (''main'', None) ('''', None) (o3, None) r4) '''' argsBranch =
      (''main'', None)" for o3 r4
    by (simp add: syncHost_def syncGit_def)
  have q2: "Run (syncHost (''main'', None) ('''', None) (o3, None) r4) '''' (argsFetch ''main'') =
      ('''', None)" for o3 r4
    by (simp add: syncHost_def syncGit_def argsFetch_def argsBranch_def)
  have q3: "Run (syncHost (''main'', None) ('''', None) (o3, None) r4) ''''
      (argsRevList ''main'') = (o3, None)" for o3 r4
    by (simp add: syncHost_def syncGit_def argsRevList_def argsBranch_def)
  have f1: "[''0'', ''5''] = Fields (TrimSpace ''0 5'')"
    by code_simp
  have f2: "[''4'', ''5''] = Fields (TrimSpace ''4 5'')"
    by code_simp
  have f3: "[''1'', ''2'', ''3''] = Fields (TrimSpace ''1 2 3'')"
    by code_simp
  show ?thesis
    using C6_ahead_behind_fields [OF q1 b q2 q3 f1]
          C6_ahead_behind_fields [OF q1 b q2 q3 f2]
          C6_ahead_behind_fields [OF q1 b q2 q3 f3]
    by simp
qed

subsection \<open>Claim C7\<close>

text \<open>
  C7, as amended. Let a target be a pattern with at least one match, every match being a
  cleaned path (as the results of \<^verbatim>\<open>filepath.Glob\<close> are) that contains none of \<^verbatim>\<open>*\<close>,
  \<^verbatim>\<open>?\<close> and \<^verbatim>\<open>[\<close>. Then the resolver gives the same result, list or error, as for a
  target list naming the matches one by one with the same \<open>IncludeSubdirs\<close>, wherever the
  target stands in the list; and \<open>GetVersionMetadata\<close> returns the same and makes the same
  git calls.
\<close>

theorem C7_glob_resolves_as_its_matches:
  assumes "ContainsAny (Clean h (Path t)) ''*?[''"
    and "Glob h (Clean h (Path t)) = Inr matches" and "matches \<noteq> []"
    and "\<forall>m \<in> set matches. Clean h m = m \<and> \<not> ContainsAny m ''*?[''"
    and "literal = map (\<lambda>m. \<lparr>Path = m, IncludeSubdirs = IncludeSubdirs t\<rparr>) matches"
  shows "resolveTargets h (before @ t # after) resolved =
           resolveTargets h (before @ literal @ after) resolved
       \<and> resolveTargets h [t] [] = resolveTargets h literal []
       \<and> GetVersionMetadata h (before @ t # after) =
           GetVersionMetadata h (before @ literal @ after)"
proof -
  have one: "resolveTarget h t r = resolveTargets h literal r" for r
    using resolveTarget_pattern [OF assms(1-3)] expandMatches_as_targets [OF assms(4)] assms(5)
    by simp
  have all: "resolveTargets h (before @ t # after) r =
      resolveTargets h (before @ literal @ after) r" for r
    by (simp add: resolveTargets_append one split: sum.splits)
  have "resolveTargets h ([] @ t # []) [] = resolveTargets h ([] @ literal @ []) []"
    by (simp add: resolveTargets_append one split: sum.splits)
  then have single: "resolveTargets h [t] [] = resolveTargets h literal []"
    by simp
  have "literal \<noteq> []"
    using assms(3,5) by simp
  then have "defaultTargets (before @ t # after) = before @ t # after"
    and "defaultTargets (before @ literal @ after) = before @ literal @ after"
    by (simp_all add: defaultTargets_nonempty)
  then have "GetVersionMetadata h (before @ t # after) =
      GetVersionMetadata h (before @ literal @ after)"
    by (intro GetVersionMetadata_same_resolution) (simp add: all)
  with all single show ?thesis by simp
qed

text \<open>
  The theorem at work: the pattern \<^verbatim>\<open>/repo/[ab].txt\<close> resolves as the two files it
  matches.
\<close>

theorem C7_glob_resolves_as_its_matches_witness:
  "resolveTargets (demoHost ''abc1234'' ''2025-09-10'' ''2025-09-10'')
     [\<lparr>Path = ''/repo/[ab].txt'', IncludeSubdirs = False\<rparr>] [] =
   resolveTargets (demoHost ''abc1234'' ''2025-09-10'' ''2025-09-10'')
     [\<lparr>Path = ''/repo/a.txt'', IncludeSubdirs = False\<rparr>,
      \<lparr>Path = ''/repo/b.txt'', IncludeSubdirs = False\<rparr>] []
   \<and> resolveTargets (demoHost ''abc1234'' ''2025-09-10'' ''2025-09-10'')
     [\<lparr>Path = ''/repo/[ab].txt'', IncludeSubdirs = False\<rparr>] [] =
     Inr [''/repo/a.txt'', ''/repo/b.txt'']"
proof -
  let ?H = "demoHost ''abc1234'' ''2025-09-10'' ''2025-09-10''"
  let ?t = "\<lparr>Path = ''/repo/[ab].txt'', IncludeSubdirs = False\<rparr>"
  let ?ms = "[''/repo/a.txt'', ''/repo/b.txt'']"
  have g: "ContainsAny (Clean ?H (Path ?t)) ''*?[''"
    by (simp add: demoHost_def ContainsAny_def)
  have m: "Glob ?H (Clean ?H (Path ?t)) = Inr ?ms"
    by (simp add: demoHost_def demoGlob_def)
  have ne: "?ms \<noteq> []" by simp
  have lit: "\<forall>m \<in> set ?ms. Clean ?H m = m \<and> \<not> ContainsAny m ''*?[''"
    by (simp add: demoHost_def ContainsAny_def)
  have l: "[\<lparr>Path = ''/repo/a.txt'', IncludeSubdirs = False\<rparr>,
            \<lparr>Path = ''/repo/b.txt'', IncludeSubdirs = False\<rparr>] =
      map (\<lambda>m. \<lparr>Path = m, IncludeSubdirs = IncludeSubdirs ?t\<rparr>) ?ms"
    by simp
  have r: "resolveTargets ?H [?t] [] = Inr ?ms"
    by code_simp
  from C7_glob_resolves_as_its_matches [OF g m ne lit l] r show ?thesis
    by simp
qed

text \<open>
  C7 as stated fails: the pattern \<^verbatim>\<open>/repo/x*.txt\<close> matches the file \<^verbatim>\<open>/repo/x[1].txt\<close> and
  resolves to it, but a target naming \<^verbatim>\<open>/repo/x[1].txt\<close> is taken as a pattern itself, one
  that matches nothing (its \<^verbatim>\<open>[1]\<close> stands for the character \<^verbatim>\<open>1\<close>), and fails.
\<close>

theorem C7_counterexample:
  "Glob (demoHost ''abc1234'' ''2025-09-10'' ''2025-09-10'') ''/repo/x*.txt'' =
     Inr [''/repo/x[1].txt'']
   \<and> resolveTargets (demoHost ''abc1234'' ''2025-09-10'' ''2025-09-10'')
       [\<lparr>Path = ''/repo/x*.txt'', IncludeSubdirs = False\<rparr>] [] = Inr [''/repo/x[1].txt'']
   \<and> resolveTargets (demoHost ''abc1234'' ''2025-09-10'' ''2025-09-10'')
       [\<lparr>Path = ''/repo/x[1].txt'', IncludeSubdirs = False\<rparr>] [] =
       Inl (NoMatchError ''/repo/x[1].txt'')
   \<and> fst (GetVersionMetadata (demoHost ''abc1234'' ''2025-09-10'' ''2025-09-10'')
       [\<lparr>Path = ''/repo/x*.txt'', IncludeSubdirs = False\<rparr>]) =
       (''2025-09-10'', ''abc1234'', None)
   \<and> fst (GetVersionMetadata (demoHost ''abc1234'' ''2025-09-10'' ''2025-09-10'')
       [\<lparr>Path = ''/repo/x[1].txt'', IncludeSubdirs = False\<rparr>]) =
       ('''', '''', Some (NoMatchError ''/repo/x[1].txt''))"
  by code_simp

subsection \<open>Claim C8\<close>

text \<open>
  C8. Let one of the targets have a cleaned path containing \<^verbatim>\<open>*\<close>, \<^verbatim>\<open>?\<close> or \<^verbatim>\<open>[\<close>, the
  pattern matching nothing. Then \<open>GetVersionMetadata\<close> fails, with two empty strings, and
  runs no git command. The error is the \<open>NoMatchError\<close> of that pattern whenever the targets
  before it resolve, so whenever it is the only or the first target.
\<close>

theorem C8_glob_without_match_fails:
  assumes "t \<in> set targets"
    and "ContainsAny (Clean h (Path t)) ''*?[''" and "Glob h (Clean h (Path t)) = Inr []"
  shows "(\<exists>e. GetVersionMetadata h targets = (('''', '''', Some e), []))
       \<and> (\<forall>before after resolved.
            targets = before @ t # after \<longrightarrow> resolveTargets h before [] = Inr resolved \<longrightarrow>
            GetVersionMetadata h targets =
              (('''', '''', Some (NoMatchError (Clean h (Path t)))), []))
       \<and> (\<forall>after. targets = t # after \<longrightarrow>
            GetVersionMetadata h targets =
              (('''', '''', Some (NoMatchError (Clean h (Path t)))), []))"
proof -
  from assms(1) have ne: "targets \<noteq> []" by auto
  obtain e where "resolveTargets h targets [] = Inl e"
    using resolveTargets_no_match [OF assms] by blast
  then have 1: "\<exists>e. GetVersionMetadata h targets = (('''', '''', Some e), [])"
    using ne GetVersionMetadata_unresolved [of h targets e]
    by (simp add: defaultTargets_nonempty)
  have 2: "GetVersionMetadata h targets =
      (('''', '''', Some (NoMatchError (Clean h (Path t)))), [])"
    if "targets = before @ t # after" "resolveTargets h before [] = Inr resolved"
    for before after resolved
  proof -
    have "resolveTargets h targets [] = Inl (NoMatchError (Clean h (Path t)))"
      using that by (simp add: resolveTargets_append resolveTarget_no_match [OF assms(2,3)])
    then show ?thesis
      using ne by (simp add: defaultTargets_nonempty GetVersionMetadata_unresolved)
  qed
  have 3: "GetVersionMetadata h targets =
      (('''', '''', Some (NoMatchError (Clean h (Path t)))), [])"
    if "targets = t # after" for after
    using 2 [of "[]" after "[]"] that by simp
  from 1 2 3 show ?thesis by blast
qed

text \<open>
  The theorem at work, on the case of the repository's test
  \<^verbatim>\<open>TestGetVersionMetadata_NoMatchesGlob\<close>: a pattern that matches no file.
\<close>

theorem C8_glob_without_match_fails_witness:
  "GetVersionMetadata (demoHost ''abc1234'' ''2025-09-10'' ''2025-09-10'')
     [\<lparr>Path = ''/repo/no-such-*.txt'', IncludeSubdirs = False\<rparr>] =
   (('''', '''', Some (NoMatchError ''/repo/no-such-*.txt'')), [])"
proof -
  let ?t = "\<lparr>Path = ''/repo/no-such-*.txt'', IncludeSubdirs = False\<rparr>"
  let ?H = "demoHost ''abc1234'' ''2025-09-10'' ''2025-09-10''"
  have m: "?t \<in> set [?t]" by simp
  have g: "ContainsAny (Clean ?H (Path ?t)) ''*?[''"
    by (simp add: demoHost_def ContainsAny_def)
  have z: "Glob ?H (Clean ?H (Path ?t)) = Inr []"
    by (simp add: demoHost_def demoGlob_def)
  have c: "Clean ?H (Path ?t) = ''/repo/no-such-*.txt''"
    by (simp add: demoHost_def)
  from C8_glob_without_match_fails [OF m g z] show ?thesis
    unfolding c by blast
qed

subsection \<open>Claim C9\<close>

text \<open>
  C9. Whenever \<open>GetVersionMetadata\<close> returns an error, whatever the host and the targets,
  the commit date and the commit hash it returns are both the empty string.
\<close>

theorem C9_error_returns_empty_strings:
  assumes "GetVersionMetadata h targets = ((commitDate, commitHash, Some e), calls)"
  shows "commitDate = '''' \<and> commitHash = ''''"
proof (cases "resolveTargets h (defaultTargets targets) []")
  case (Inl e')
  with assms show ?thesis by (simp add: GetVersionMetadata_unresolved)
next
  case (Inr resolved)
  show ?thesis
  proof (cases "resolved = []")
    case True
    with Inr assms show ?thesis by (simp add: GetVersionMetadata_nothing)
  next
    case False
    note r = Inr False
    show ?thesis
    proof (cases "snd (Run h (workDirOf h resolved) (baseArgsHash @ resolved))")
      case (Some e1)
      with assms GetVersionMetadata_hash_fails [OF r] show ?thesis by simp
    next
      case h: None
      show ?thesis
      proof (cases "snd (Run h (workDirOf h resolved) (baseArgsDate @ resolved))")
        case (Some e2)
        with assms GetVersionMetadata_date_fails [OF r h] show ?thesis by simp
      next
        case d: None
        show ?thesis
        proof (cases "snd (Run h (workDirOf h resolved) (baseArgsCount @ resolved))")
          case (Some e3)
          with assms GetVersionMetadata_count_fails [OF r h d] show ?thesis by simp
        next
          case c: None
          have "snd (snd (fst (GetVersionMetadata h targets))) = None"
            using GetVersionMetadata_answers [OF r, of _ _ _] h d c
            by (metis fst_conv snd_conv prod.collapse)
          with assms show ?thesis by simp
        qed
      qed
    qed
  qed
qed

text \<open>
  The theorem at work: git fails on the first query for the file \<^verbatim>\<open>a.txt\<close>; the error
  comes back with two empty strings, after the one call.
\<close>

theorem C9_error_returns_empty_strings_witness:
  "GetVersionMetadata
     (syncHost (''main'', None) ('''', None) (''0 0'', None) ('''', None))
     [\<lparr>Path = ''/repo/a.txt'', IncludeSubdirs = False\<rparr>] =
   (('''', '''', Some (BackendQueryError ''git log hash'' ''exit status 1'')),
    [(''/repo'', baseArgsHash @ [''/repo/a.txt''])])"
proof -
  let ?X = "GetVersionMetadata
     (syncHost (''main'', None) ('''', None) (''0 0'', None) ('''', None))
     [\<lparr>Path = ''/repo/a.txt'', IncludeSubdirs = False\<rparr>]"
  have e: "snd (snd (fst ?X)) = Some (BackendQueryError ''git log hash'' ''exit status 1'')"
    by code_simp
  have c: "snd ?X = [(''/repo'', baseArgsHash @ [''/repo/a.txt''])]"
    by code_simp
  have "?X = ((fst (fst ?X), fst (snd (fst ?X)),
               Some (BackendQueryError ''git log hash'' ''exit status 1'')), snd ?X)"
    by (metis e prod.collapse)
  from C9_error_returns_empty_strings [OF this] this c show ?thesis by simp
qed

subsection \<open>Claim C10\<close>




end
